theory Spec2Isabelle
  imports Complex_Main "HOL-Library.Word"
begin

section \<open>Python strings\<close>

text \<open>
  A Python \<open>str\<close> is a sequence of Unicode code points, so it is modelled as a list of
  natural numbers: \<open>len\<close> is \<open>length\<close>, and the UTF-8 encoding of a string is
  longer than the string as soon as a code point is above 127. A literal of the source is
  written \<open>str ''...''\<close>.
\<close>

type_synonym codepoint = nat
type_synonym pystr = "codepoint list"

definition str :: "string \<Rightarrow> pystr" where
  "str cs = map of_char cs"

text \<open>
  \<open>str.lower()\<close>. On ASCII it maps \<open>A..Z\<close> to \<open>a..z\<close> and leaves every other
  character alone. Outside ASCII it follows the Unicode tables of the Python runtime, which
  may depend on the context (final sigma) and may yield several code points or an ASCII one
  (the Kelvin sign lowers to \<open>k\<close>). Those tables are not part of the repository: they are
  the parameter \<open>ul\<close>, given the reversed prefix, the code point and the rest of the
  string.
\<close>

type_synonym unicode_lower = "pystr \<Rightarrow> codepoint \<Rightarrow> pystr \<Rightarrow> pystr"

definition ascii_lower :: "codepoint \<Rightarrow> codepoint" where
  "ascii_lower c = (if 65 \<le> c \<and> c \<le> 90 then c + 32 else c)"

fun lower_from :: "unicode_lower \<Rightarrow> pystr \<Rightarrow> pystr \<Rightarrow> pystr" where
  "lower_from ul pre [] = []"
| "lower_from ul pre (c # cs) =
     (if c < 128 then [ascii_lower c] else ul pre c cs) @ lower_from ul (c # pre) cs"

definition py_lower :: "unicode_lower \<Rightarrow> pystr \<Rightarrow> pystr" where
  "py_lower ul s = lower_from ul [] s"

text \<open>\<open>str(n)\<close> and \<open>f"{n}"\<close> for an integer: decimal digits, with a minus sign.\<close>

fun digits :: "nat \<Rightarrow> pystr" where
  "digits n = (if n < 10 then [48 + n] else digits (n div 10) @ [48 + n mod 10])"

declare digits.simps [simp del]

definition str_of_int :: "int \<Rightarrow> pystr" where
  "str_of_int i = (if i < 0 then 45 # digits (nat (- i)) else digits (nat i))"

section \<open>Enumerations (app/models/enums.py)\<close>

datatype DocumentFormat = MARKDOWN | MD | PDF | HTML | HTM

fun value_of :: "DocumentFormat \<Rightarrow> pystr" where
  "value_of MARKDOWN = str ''markdown''"
| "value_of MD = str ''md''"
| "value_of PDF = str ''pdf''"
| "value_of HTML = str ''html''"
| "value_of HTM = str ''htm''"

definition format_map :: "(pystr \<times> DocumentFormat) list" where
  "format_map =
     [(str ''markdown'', MARKDOWN),
      (str ''md'', MARKDOWN),
      (str ''pdf'', PDF),
      (str ''html'', HTML),
      (str ''htm'', HTML)]"

text \<open>\<open>format_map.get(format_str.lower(), cls.MARKDOWN)\<close>\<close>

definition normalize :: "unicode_lower \<Rightarrow> pystr \<Rightarrow> DocumentFormat" where
  "normalize ul format_str =
     (case map_of format_map (py_lower ul format_str) of
        Some f \<Rightarrow> f
      | None \<Rightarrow> MARKDOWN)"

datatype TaskStatus =
  CREATED | QUEUED | WAITING | PROCESSING | SUCCESS | FAILED | CANCELLED | EXPIRED

definition is_final :: "TaskStatus \<Rightarrow> bool" where
  "is_final s = (s \<in> {SUCCESS, FAILED, CANCELLED, EXPIRED})"

definition is_active :: "TaskStatus \<Rightarrow> bool" where
  "is_active s = (s = PROCESSING)"

definition can_cancel :: "TaskStatus \<Rightarrow> bool" where
  "can_cancel s = (s \<in> {CREATED, QUEUED, WAITING, PROCESSING})"

datatype ConversionTheme =
  THEME_DEFAULT | THEME_GITHUB | THEME_MATERIAL | THEME_DARK | THEME_LIGHT | THEME_ACADEMIC

datatype CodeStyle =
  STYLE_DEFAULT | STYLE_MONOKAI | STYLE_GITHUB | STYLE_DRACULA | STYLE_SOLARIZED_LIGHT
  | STYLE_SOLARIZED_DARK | STYLE_VS_CODE | STYLE_ATOM_ONE

datatype UploadSource = SRC_FILE | SRC_TEXT | SRC_URL | SRC_API

datatype Priority = LOW | NORMAL | HIGH | URGENT

datatype ErrorCode =
  FILE_TOO_LARGE | FILE_NOT_FOUND | INVALID_FILE_FORMAT | FILE_CORRUPTED
  | TASK_NOT_FOUND | TASK_EXPIRED | TASK_LIMIT_EXCEEDED | TASK_TIMEOUT
  | CONVERSION_FAILED | UNSUPPORTED_CONVERSION | INVALID_OPTIONS
  | STORAGE_ERROR | MEMORY_LIMIT | INTERNAL_ERROR | SERVICE_UNAVAILABLE

definition status_map :: "(ErrorCode \<times> int) list" where
  "status_map =
     [(FILE_TOO_LARGE, 413),
      (FILE_NOT_FOUND, 404),
      (INVALID_FILE_FORMAT, 400),
      (FILE_CORRUPTED, 422),
      (TASK_NOT_FOUND, 404),
      (TASK_EXPIRED, 410),
      (TASK_LIMIT_EXCEEDED, 429),
      (TASK_TIMEOUT, 408),
      (CONVERSION_FAILED, 500),
      (UNSUPPORTED_CONVERSION, 400),
      (INVALID_OPTIONS, 400),
      (STORAGE_ERROR, 507),
      (MEMORY_LIMIT, 507),
      (INTERNAL_ERROR, 500),
      (SERVICE_UNAVAILABLE, 503)]"

text \<open>\<open>status_map.get(self, 500)\<close>\<close>

definition to_http_status :: "ErrorCode \<Rightarrow> int" where
  "to_http_status c = (case map_of status_map c of Some s \<Rightarrow> s | None \<Rightarrow> 500)"

subsection \<open>Constants\<close>

definition MAX_FILE_SIZE :: int where "MAX_FILE_SIZE = 524288000"
definition MAX_TEXT_SIZE :: int where "MAX_TEXT_SIZE = 10485760"
definition MAX_URL_SIZE :: int where "MAX_URL_SIZE = 104857600"

definition CONVERSION_MATRIX :: "(DocumentFormat \<times> DocumentFormat list) list" where
  "CONVERSION_MATRIX =
     [(MARKDOWN, [PDF, HTML]),
      (PDF, [MARKDOWN, HTML]),
      (HTML, [MARKDOWN, PDF])]"

definition can_convert :: "unicode_lower \<Rightarrow> DocumentFormat \<Rightarrow> DocumentFormat \<Rightarrow> bool" where
  "can_convert ul source target =
     (let source_norm = normalize ul (value_of source);
          target_norm = normalize ul (value_of target)
      in if source_norm = target_norm then False
         else target_norm \<in> set (case map_of CONVERSION_MATRIX source_norm of
                                    Some ts \<Rightarrow> ts
                                  | None \<Rightarrow> []))"

section \<open>Exceptions of the Python runtime\<close>

text \<open>
  An exception is a value carrying its message (\<open>str(e)\<close>). \<open>UnicodeEncodeError\<close> is a
  subclass of \<open>ValueError\<close>, so a handler for \<open>ValueError\<close> catches both.
\<close>

datatype py_exception =
  ValueError pystr | UnicodeEncodeError pystr | OSError pystr | OtherException pystr

fun exc_str :: "py_exception \<Rightarrow> pystr" where
  "exc_str (ValueError m) = m"
| "exc_str (UnicodeEncodeError m) = m"
| "exc_str (OSError m) = m"
| "exc_str (OtherException m) = m"

fun is_ValueError :: "py_exception \<Rightarrow> bool" where
  "is_ValueError (ValueError m) = True"
| "is_ValueError (UnicodeEncodeError m) = True"
| "is_ValueError (OSError m) = False"
| "is_ValueError (OtherException m) = False"

section \<open>Bytes and codecs\<close>

type_synonym byte = "8 word"

text \<open>\<open>bytes.startswith\<close>\<close>

definition startswith :: "'a list \<Rightarrow> 'a list \<Rightarrow> bool" where
  "startswith xs p = (take (length p) xs = p)"

text \<open>
  Whether \<open>bytes.decode('utf-8')\<close> succeeds (strict error handling): the well-formed byte
  sequences of the Unicode standard, that is no overlong form, no surrogate, nothing above
  U+10FFFF and no truncated sequence.
\<close>

definition cont :: "byte \<Rightarrow> bool" where
  "cont b = (0x80 \<le> b \<and> b \<le> 0xBF)"

fun utf8_decodes :: "byte list \<Rightarrow> bool" where
  "utf8_decodes [] = True"
| "utf8_decodes (b # bs) =
     (if b < 0x80 then utf8_decodes bs
      else if 0xC2 \<le> b \<and> b \<le> 0xDF then
        (case bs of c1 # r \<Rightarrow> cont c1 \<and> utf8_decodes r | _ \<Rightarrow> False)
      else if 0xE0 \<le> b \<and> b \<le> 0xEF then
        (case bs of
           c1 # c2 # r \<Rightarrow>
             (if b = 0xE0 then 0xA0 \<le> c1 \<and> c1 \<le> 0xBF
              else if b = 0xED then 0x80 \<le> c1 \<and> c1 \<le> 0x9F
              else cont c1)
             \<and> cont c2 \<and> utf8_decodes r
         | _ \<Rightarrow> False)
      else if 0xF0 \<le> b \<and> b \<le> 0xF4 then
        (case bs of
           c1 # c2 # c3 # r \<Rightarrow>
             (if b = 0xF0 then 0x90 \<le> c1 \<and> c1 \<le> 0xBF
              else if b = 0xF4 then 0x80 \<le> c1 \<and> c1 \<le> 0x8F
              else cont c1)
             \<and> cont c2 \<and> cont c3 \<and> utf8_decodes r
         | _ \<Rightarrow> False)
      else False)"

text \<open>\<open>bytes.decode('latin-1')\<close>: every byte is the code point of the same number.\<close>

definition decode_latin1 :: "byte list \<Rightarrow> py_exception + pystr" where
  "decode_latin1 bs = Inr (map unat bs)"

text \<open>
  \<open>str.encode('utf-8')\<close>: one to four bytes for a code point; a lone surrogate
  (U+D800 to U+DFFF) raises \<open>UnicodeEncodeError\<close>. Code points of a Python string are at
  most U+10FFFF.
\<close>

definition encode_cp :: "codepoint \<Rightarrow> byte list option" where
  "encode_cp c =
     (if c < 0x80 then Some [of_nat c]
      else if c < 0x800 then Some [of_nat (0xC0 + c div 64), of_nat (0x80 + c mod 64)]
      else if 0xD800 \<le> c \<and> c \<le> 0xDFFF then None
      else if c < 0x10000 then
        Some [of_nat (0xE0 + c div 4096), of_nat (0x80 + c div 64 mod 64),
              of_nat (0x80 + c mod 64)]
      else
        Some [of_nat (0xF0 + c div 262144), of_nat (0x80 + c div 4096 mod 64),
              of_nat (0x80 + c div 64 mod 64), of_nat (0x80 + c mod 64)])"

fun encode_utf8 :: "pystr \<Rightarrow> py_exception + byte list" where
  "encode_utf8 [] = Inr []"
| "encode_utf8 (c # cs) =
     (case encode_cp c of
        None \<Rightarrow> Inl (UnicodeEncodeError (str ''surrogates not allowed''))
      | Some bs \<Rightarrow>
          (case encode_utf8 cs of Inl e \<Rightarrow> Inl e | Inr rest \<Rightarrow> Inr (bs @ rest)))"

section \<open>Paths (pathlib, POSIX flavour)\<close>

text \<open>
  \<open>Path(path)\<close> on the platform the service runs on is a \<open>PurePosixPath\<close>: the only
  separator is \<open>/\<close> (code point 47), a backslash (92) is an ordinary character. A path is
  parsed into a root (\<open>""\<close>, \<open>"/"\<close>, or \<open>"//"\<close> for exactly two leading slashes) and the
  components that are neither empty nor \<open>"."\<close>.
\<close>

fun split_on :: "'a \<Rightarrow> 'a list \<Rightarrow> 'a list list" where
  "split_on sep [] = [[]]"
| "split_on sep (c # cs) =
     (if c = sep then [] # split_on sep cs
      else (case split_on sep cs of
              [] \<Rightarrow> [[c]]
            | p # ps \<Rightarrow> (c # p) # ps))"

fun join :: "'a list \<Rightarrow> 'a list list \<Rightarrow> 'a list" where
  "join sep [] = []"
| "join sep [x] = x"
| "join sep (x # y # ys) = x @ sep @ join sep (y # ys)"

record PurePosixPath =
  p_root :: pystr
  p_tail :: "pystr list"

definition splitroot :: "pystr \<Rightarrow> pystr \<times> pystr" where
  "splitroot part =
     (if part \<noteq> [] \<and> hd part = 47 then
        (let stripped_part = dropWhile (\<lambda>c. c = 47) part
         in if length part - length stripped_part = 2 then ([47, 47], stripped_part)
            else ([47], stripped_part))
      else ([], part))"

definition Path :: "pystr \<Rightarrow> PurePosixPath" where
  "Path path =
     (let (root, rel) = splitroot path
      in \<lparr>p_root = root,
          p_tail = filter (\<lambda>x. x \<noteq> [] \<and> x \<noteq> [46]) (split_on 47 rel)\<rparr>)"

definition is_absolute :: "PurePosixPath \<Rightarrow> bool" where
  "is_absolute p = (p_root p \<noteq> [])"

definition parts :: "PurePosixPath \<Rightarrow> pystr list" where
  "parts p = (if p_root p \<noteq> [] then p_root p # p_tail p else p_tail p)"

definition name :: "PurePosixPath \<Rightarrow> pystr" where
  "name p = (if p_tail p = [] then [] else last (p_tail p))"

definition str_of_path :: "PurePosixPath \<Rightarrow> pystr" where
  "str_of_path p =
     (let s = p_root p @ join [47] (p_tail p) in if s = [] then [46] else s)"

text \<open>\<open>s.replace(old, new)\<close> for single characters.\<close>

definition replace :: "'a \<Rightarrow> 'a \<Rightarrow> 'a list \<Rightarrow> 'a list" where
  "replace old new s = map (\<lambda>c. if c = old then new else c) s"

section \<open>Validators (app/models/validators.py)\<close>

type_synonym result = "bool \<times> pystr option"

subsection \<open>FileValidator\<close>

definition max_sizes :: "(pystr \<times> int) list" where
  "max_sizes =
     [(str ''file'', MAX_FILE_SIZE),
      (str ''text'', MAX_TEXT_SIZE),
      (str ''url'', MAX_URL_SIZE)]"

definition validate_file_size :: "int \<Rightarrow> pystr \<Rightarrow> result" where
  "validate_file_size sz source =
     (if sz \<le> 0 then (False, Some (str ''File size must be positive''))
      else
        (let max_size = (case map_of max_sizes source of
                           Some m \<Rightarrow> m
                         | None \<Rightarrow> MAX_FILE_SIZE)
         in if sz > max_size then
              (False, Some (str ''Size '' @ str_of_int sz @ str '' bytes exceeds maximum of ''
                            @ str_of_int max_size @ str '' bytes''))
            else (True, None)))"

text \<open>
  What \<open>quick_format_check\<close> sees of the file system at \<open>file_path\<close>: the outcome of
  \<open>file_path.exists()\<close>, and the outcome of opening the file and reading it, which is
  either its bytes or the exception raised by \<open>open\<close> or \<open>read\<close>. \<open>f.read(1024)\<close>
  returns the first 1024 bytes, fewer if the file is shorter.
\<close>

record file_node =
  f_exists :: "py_exception + bool"
  f_read :: "py_exception + byte list"

definition pdf_signature :: "byte list" where
  "pdf_signature = [0x25, 0x50, 0x44, 0x46]"

definition quick_format_check :: "file_node \<Rightarrow> DocumentFormat \<Rightarrow> py_exception + result" where
  "quick_format_check file_path expected_format =
     (case f_exists file_path of
        Inl e \<Rightarrow> Inl e
      | Inr False \<Rightarrow> Inr (False, Some (str ''File does not exist''))
      | Inr True \<Rightarrow>
          (case f_read file_path of
             Inl e \<Rightarrow> Inr (True, None)
           | Inr content \<Rightarrow>
               (let header = take 1024 content
                in if expected_format = PDF then
                     (if \<not> startswith header pdf_signature then
                        Inr (False, Some (str ''File doesn't appear to be a PDF (missing %PDF header)''))
                      else Inr (True, None))
                   else if expected_format \<in> set [HTML, HTM, MARKDOWN, MD] then
                     (if 0 \<in> set header then
                        Inr (False, Some (str ''File appears to be binary, not text''))
                      else if utf8_decodes header then Inr (True, None)
                      else (case decode_latin1 header of
                              Inr s \<Rightarrow> Inr (True, None)
                            | Inl e \<Rightarrow> Inr (False, Some (str ''File is not readable as text''))))
                   else Inr (True, None))))"

definition sanitize_path :: "pystr \<Rightarrow> pystr" where
  "sanitize_path path =
     (let p = Path path
      in if is_absolute p \<or> [46, 46] \<in> set (parts p) then name p
         else replace 92 47 (str_of_path p))"

subsection \<open>URLValidator\<close>

text \<open>
  \<open>urllib.parse.urlparse\<close> and \<open>ipaddress.ip_address\<close> belong to the Python runtime, not
  to the repository: they are parameters of the model. Of the parse result the validator
  reads \<open>scheme\<close> and \<open>hostname\<close> (\<open>None\<close> when the URL has no host); of the address it
  reads three flags. \<open>ip_address\<close> raises \<open>ValueError\<close> on a string that is not an IPv4 or
  IPv6 address.
\<close>

record ParseResult =
  scheme :: pystr
  hostname :: "pystr option"

record IPAddress =
  is_private :: bool
  is_reserved :: bool
  is_loopback :: bool

type_synonym urlparse_fn = "pystr \<Rightarrow> py_exception + ParseResult"
type_synonym ip_address_fn = "pystr \<Rightarrow> py_exception + IPAddress"

definition ALLOWED_SCHEMES :: "pystr list" where
  "ALLOWED_SCHEMES = [str ''http'', str ''https'']"

definition BLOCKED_DOMAINS :: "pystr list" where
  "BLOCKED_DOMAINS = [str ''localhost'', str ''127.0.0.1'', str ''0.0.0.0'', str ''::1'']"

definition is_private_ip :: "ip_address_fn \<Rightarrow> pystr \<Rightarrow> py_exception + bool" where
  "is_private_ip ip_address host =
     (case ip_address host of
        Inr ip \<Rightarrow> Inr (is_private ip \<or> is_reserved ip \<or> is_loopback ip)
      | Inl e \<Rightarrow> if is_ValueError e then Inr False else Inl e)"

definition validate_url :: "urlparse_fn \<Rightarrow> ip_address_fn \<Rightarrow> pystr \<Rightarrow> result" where
  "validate_url urlparse ip_address url =
     (if url = [] then (False, Some (str ''URL cannot be empty''))
      else if length url > 2048 then (False, Some (str ''URL too long (max 2048 characters)''))
      else
        (case urlparse url of
           Inl e \<Rightarrow> (False, Some (str ''Invalid URL: '' @ exc_str e))
         | Inr parsed \<Rightarrow>
             if scheme parsed \<notin> set ALLOWED_SCHEMES then
               (False, Some (str ''URL scheme '' @ [39] @ scheme parsed @ [39]
                             @ str '' not allowed (use http/https)''))
             else if (case hostname parsed of
                        None \<Rightarrow> False
                      | Some h \<Rightarrow> h \<in> set BLOCKED_DOMAINS) then
               (False, Some (str ''Cannot access localhost''))
             else
               (case hostname parsed of
                  None \<Rightarrow> (True, None)
                | Some h \<Rightarrow>
                    if h = [] then (True, None)
                    else
                      (case is_private_ip ip_address h of
                         Inl e \<Rightarrow> (False, Some (str ''Invalid URL: '' @ exc_str e))
                       | Inr True \<Rightarrow>
                           (False, Some (str ''Cannot access private network addresses''))
                       | Inr False \<Rightarrow> (True, None)))))"

subsection \<open>TextValidator\<close>

text \<open>
  \<open>max_size: int = None\<close>; the test \<open>if max_size:\<close> is the truth value of the argument:
  false for \<open>None\<close> and for \<open>0\<close>, true for every other integer, negative ones included.
  The encoding is outside any \<open>try\<close>, so its exception leaves the function.
\<close>

definition truthy :: "int option \<Rightarrow> bool" where
  "truthy v = (case v of None \<Rightarrow> False | Some n \<Rightarrow> n \<noteq> 0)"

definition validate_text_input :: "pystr \<Rightarrow> int option \<Rightarrow> py_exception + result" where
  "validate_text_input text max_size =
     (if text = [] then Inr (False, Some (str ''Text cannot be empty''))
      else if 0 \<in> set text then Inr (False, Some (str ''Text contains null bytes''))
      else if truthy max_size then
        (case encode_utf8 text of
           Inl e \<Rightarrow> Inl e
         | Inr text_bytes \<Rightarrow>
             if int (length text_bytes) > the max_size then
               Inr (False, Some (str ''Text size '' @ str_of_int (int (length text_bytes))
                                 @ str '' bytes exceeds maximum of ''
                                 @ str_of_int (the max_size) @ str '' bytes''))
             else Inr (True, None))
      else Inr (True, None))"

section \<open>Domain entities (app/models/models.py)\<close>

text \<open>
  A \<open>UUID\<close> is its 128-bit number. A \<open>datetime\<close> is a count of microseconds, and
  \<open>(b - a).total_seconds()\<close> is the difference divided by \<open>10^6\<close>, taken here as a real
  number. \<open>datetime.utcnow()\<close> reads the clock: the mutators take the value read as the
  argument \<open>now\<close>.
\<close>

type_synonym UUID = nat
type_synonym datetime = int

definition total_seconds :: "datetime \<Rightarrow> datetime \<Rightarrow> real" where
  "total_seconds b a = real_of_int (b - a) / 1000000"

record ConversionOptions =
  theme :: ConversionTheme
  code_style :: CodeStyle
  page_size :: pystr
  margin :: pystr
  include_toc :: bool
  include_page_numbers :: bool
  embed_images :: bool
  process_math :: bool
  process_mermaid :: bool

record Task =
  task_id :: UUID
  status :: TaskStatus
  priority :: Priority
  source :: UploadSource
  input_file_id :: UUID
  output_file_id :: "UUID option"
  cache_key :: "pystr option"
  source_format :: DocumentFormat
  target_format :: DocumentFormat
  options :: ConversionOptions
  progress :: int
  message :: pystr
  error_code :: "ErrorCode option"
  error_details :: "pystr option"
  created_at :: datetime
  started_at :: "datetime option"
  completed_at :: "datetime option"
  processing_time :: "real option"
  memory_used :: "int option"
  retry_count :: int

text \<open>
  Construction. Pydantic checks the field constraints (\<open>progress\<close> in 0..100,
  \<open>retry_count\<close> in 0..3) and runs the field validators: both formats are normalized (a
  \<open>DocumentFormat\<close> is a \<open>str\<close>, so \<open>isinstance(v, str)\<close> holds and \<open>v.lower()\<close> is
  its value in lower case), then the conversion is checked. The argument is the record of
  the values given to the constructor, defaults filled in; the result is the task, or the
  names of the fields that failed, in the order of the class body. Assignment to a field
  of an existing task is not validated (\<open>validate_assignment\<close> is not set).
\<close>

definition normalize_formats :: "unicode_lower \<Rightarrow> DocumentFormat \<Rightarrow> DocumentFormat" where
  "normalize_formats ul v = normalize ul (value_of v)"

definition validate_conversion :: "unicode_lower \<Rightarrow> DocumentFormat \<Rightarrow> DocumentFormat \<Rightarrow> bool" where
  "validate_conversion ul source_v v = (\<not> (value_of source_v \<noteq> [] \<and> \<not> can_convert ul source_v v))"

definition Task_init :: "unicode_lower \<Rightarrow> Task \<Rightarrow> pystr list + Task" where
  "Task_init ul d =
     (let sf = normalize_formats ul (source_format d);
          tf = normalize_formats ul (target_format d);
          errors =
            (if validate_conversion ul sf tf then [] else [str ''target_format''])
            @ (if 0 \<le> progress d \<and> progress d \<le> 100 then [] else [str ''progress''])
            @ (if 0 \<le> retry_count d \<and> retry_count d \<le> 3 then [] else [str ''retry_count''])
      in if errors = [] then Inr (d\<lparr>source_format := sf, target_format := tf\<rparr>)
         else Inl errors)"

definition is_complete :: "Task \<Rightarrow> bool" where
  "is_complete t = is_final (status t)"

definition can_retry :: "Task \<Rightarrow> bool" where
  "can_retry t = (retry_count t < 3 \<and> status t = FAILED)"

definition set_processing :: "datetime \<Rightarrow> Task \<Rightarrow> Task" where
  "set_processing now t =
     t\<lparr>status := PROCESSING,
       started_at := Some now,
       message := str ''Processing conversion''\<rparr>"

definition set_completed :: "datetime \<Rightarrow> UUID \<Rightarrow> Task \<Rightarrow> Task" where
  "set_completed now out_id t =
     (let t1 = t\<lparr>status := SUCCESS,
                  output_file_id := Some out_id,
                  completed_at := Some now,
                  progress := 100,
                  message := str ''Conversion completed successfully''\<rparr>
      in case started_at t1 of
           Some s \<Rightarrow> t1\<lparr>processing_time := Some (total_seconds now s)\<rparr>
         | None \<Rightarrow> t1)"

definition set_failed :: "datetime \<Rightarrow> ErrorCode \<Rightarrow> pystr \<Rightarrow> Task \<Rightarrow> Task" where
  "set_failed now code details t =
     t\<lparr>status := FAILED,
       error_code := Some code,
       error_details := Some details,
       completed_at := Some now,
       message := str ''Conversion failed: '' @ details\<rparr>"

text \<open>
  \<open>task.retry_count = v\<close>. The model configuration of \<open>Task\<close> holds only
  \<open>json_schema_extra\<close>: \<open>validate_assignment\<close> is not set, so the assignment stores
  any integer, and the constraints \<open>ge=0\<close>, \<open>le=3\<close> are not looked at again. The class
  has no method that counts a retry, so this assignment is how a retry is recorded.
\<close>

definition setattr_retry_count :: "int \<Rightarrow> Task \<Rightarrow> Task" where
  "setattr_retry_count v t = t\<lparr>retry_count := v\<rparr>"

section \<open>Concrete inputs\<close>

text \<open>A lowering table that leaves every code point outside ASCII as it is.\<close>

definition ascii_only :: unicode_lower where
  "ascii_only pre c post = [c]"

text \<open>The arguments of \<open>Task(input_file_id=2, source_format="md", target_format="pdf")\<close>.\<close>

definition new_task :: Task where
  "new_task =
     \<lparr>task_id = 1, status = CREATED, priority = NORMAL, source = SRC_FILE,
      input_file_id = 2, output_file_id = None, cache_key = None,
      source_format = MD, target_format = PDF,
      options = \<lparr>theme = THEME_DEFAULT, code_style = STYLE_DEFAULT,
                 page_size = str ''A4'', margin = str ''20mm'', include_toc = False,
                 include_page_numbers = True, embed_images = True, process_math = True,
                 process_mermaid = True\<rparr>,
      progress = 0, message = str ''Task created'', error_code = None,
      error_details = None, created_at = 0, started_at = None, completed_at = None,
      processing_time = None, memory_used = None, retry_count = 0\<rparr>"

text \<open>That task, started at time 5 and failed at time 9 with a timeout.\<close>

definition failed_task :: Task where
  "failed_task =
     set_failed 9 TASK_TIMEOUT (str ''timed out'')
       (set_processing 5 (new_task\<lparr>source_format := MARKDOWN\<rparr>))"

text \<open>
  What the runtime answers on a few URLs and host names: \<open>urlparse\<close> on four URLs
  (any other string is taken to raise), and \<open>ip_address\<close> on two addresses (any other
  string is not an address).
\<close>

definition example_urlparse :: urlparse_fn where
  "example_urlparse url =
     (case map_of
        [(str ''https://example.com/path?q=1'',
            \<lparr>scheme = str ''https'', hostname = Some (str ''example.com'')\<rparr>),
         (str ''ftp://example.com'',
            \<lparr>scheme = str ''ftp'', hostname = Some (str ''example.com'')\<rparr>),
         (str ''http://127.0.0.1:8080'',
            \<lparr>scheme = str ''http'', hostname = Some (str ''127.0.0.1'')\<rparr>),
         (str ''http://192.168.1.1'',
            \<lparr>scheme = str ''http'', hostname = Some (str ''192.168.1.1'')\<rparr>)] url of
        Some parsed \<Rightarrow> Inr parsed
      | None \<Rightarrow> Inl (ValueError (str ''Invalid URL'')))"

definition example_ip_address :: ip_address_fn where
  "example_ip_address host =
     (if host = str ''192.168.1.1'' then
        Inr \<lparr>is_private = True, is_reserved = False, is_loopback = False\<rparr>
      else if host = str ''127.0.0.1'' then
        Inr \<lparr>is_private = True, is_reserved = False, is_loopback = True\<rparr>
      else Inl (ValueError (str ''does not appear to be an IPv4 or IPv6 address'')))"

text \<open>Two files: the bytes \<open>Not a PDF\<close>, and a text with a null byte in it.\<close>

definition not_a_pdf :: "byte list" where
  "not_a_pdf = [0x4E, 0x6F, 0x74, 0x20, 0x61, 0x20, 0x50, 0x44, 0x46]"

definition binary_file :: "byte list" where
  "binary_file = [0x3C, 0x68, 0x00, 0x31, 0x3E]"

section \<open>Properties\<close>

subsection \<open>Format normalization\<close>

lemma py_lower_literals:
  "py_lower ul (str ''markdown'') = str ''markdown''"
  "py_lower ul (str ''md'') = str ''md''"
  "py_lower ul (str ''pdf'') = str ''pdf''"
  "py_lower ul (str ''html'') = str ''html''"
  "py_lower ul (str ''htm'') = str ''htm''"
  by (simp_all add: py_lower_def str_def ascii_lower_def)

lemma normalize_literals:
  "normalize ul (str ''markdown'') = MARKDOWN"
  "normalize ul (str ''md'') = MARKDOWN"
  "normalize ul (str ''pdf'') = PDF"
  "normalize ul (str ''html'') = HTML"
  "normalize ul (str ''htm'') = HTML"
  by (simp_all add: normalize_def py_lower_literals format_map_def) (simp_all add: str_def)

lemma normalize_range: "normalize ul x \<in> {MARKDOWN, PDF, HTML}"
  by (auto simp: normalize_def format_map_def split: option.splits if_splits)

lemma lower_from_ascii:
  "list_all (\<lambda>c. c < 128) x \<Longrightarrow> lower_from ul pre x = map ascii_lower x"
  by (induction x arbitrary: pre) simp_all

lemma normalize_cases:
  "normalize ul x =
     (if py_lower ul x = str ''pdf'' then PDF
      else if py_lower ul x = str ''html'' \<or> py_lower ul x = str ''htm'' then HTML
      else MARKDOWN)"
  by (simp add: normalize_def format_map_def) (simp add: str_def)

lemma lower_examples:
  "py_lower ascii_only (str ''PdF'') = str ''pdf''"
  "py_lower ascii_only (str ''HTM'') = str ''htm''"
  "py_lower ascii_only (str ''Md'') = str ''md''"
  "py_lower ascii_only (str ''docx'') = str ''docx''"
  by (simp_all add: py_lower_def str_def ascii_lower_def)

subsection \<open>Conversion policy\<close>

text \<open>
  Claim C2. No format converts to itself, and none converts to a format with the same
  normal form (\<open>md\<close> and \<open>markdown\<close> are one format, \<open>htm\<close> and \<open>html\<close> another);
  \<open>can_convert\<close> is symmetric; and any two formats that differ after normalization
  convert into each other, in both directions. So \<open>can_convert\<close> holds exactly for the
  pairs with distinct normal forms. This holds whatever the Unicode tables of
  \<open>str.lower\<close> are.
\<close>

theorem can_convert_triangle:
  "\<not> can_convert ul f f
   \<and> (normalize ul (value_of a) = normalize ul (value_of b)
        \<longrightarrow> \<not> can_convert ul a b \<and> \<not> can_convert ul b a)
   \<and> (can_convert ul a b \<longleftrightarrow> can_convert ul b a)
   \<and> (normalize ul (value_of a) \<noteq> normalize ul (value_of b)
        \<longrightarrow> can_convert ul a b \<and> can_convert ul b a)"
proof (intro conjI)
  show "\<not> can_convert ul f f"
    by (simp add: can_convert_def)
  show "normalize ul (value_of a) = normalize ul (value_of b)
        \<longrightarrow> \<not> can_convert ul a b \<and> \<not> can_convert ul b a"
    by (simp add: can_convert_def)
  show "can_convert ul a b \<longleftrightarrow> can_convert ul b a"
    by (cases a; cases b) (simp_all add: can_convert_def normalize_literals CONVERSION_MATRIX_def)
  show "normalize ul (value_of a) \<noteq> normalize ul (value_of b)
        \<longrightarrow> can_convert ul a b \<and> can_convert ul b a"
    by (cases a; cases b) (simp_all add: can_convert_def normalize_literals CONVERSION_MATRIX_def)
qed

theorem can_convert_triangle_witness:
  "normalize ascii_only (value_of MD) \<noteq> normalize ascii_only (value_of HTM)
   \<and> can_convert ascii_only MD HTM \<and> can_convert ascii_only HTM MD
   \<and> \<not> can_convert ascii_only PDF PDF
   \<and> normalize ascii_only (value_of MD) = normalize ascii_only (value_of MARKDOWN)
   \<and> \<not> can_convert ascii_only MD MARKDOWN \<and> \<not> can_convert ascii_only MARKDOWN MD"
proof -
  have d: "normalize ascii_only (value_of MD) \<noteq> normalize ascii_only (value_of HTM)"
    by (simp add: normalize_literals)
  have e: "normalize ascii_only (value_of MD) = normalize ascii_only (value_of MARKDOWN)"
    by (simp add: normalize_literals)
  from can_convert_triangle [of ascii_only PDF MD HTM] d
  have 1: "can_convert ascii_only MD HTM \<and> can_convert ascii_only HTM MD
           \<and> \<not> can_convert ascii_only PDF PDF"
    by blast
  from can_convert_triangle [of ascii_only PDF MD MARKDOWN] e
  have 2: "\<not> can_convert ascii_only MD MARKDOWN \<and> \<not> can_convert ascii_only MARKDOWN MD"
    by blast
  from d e 1 2 show ?thesis by blast
qed

text \<open>
  Claim C3. \<open>normalize\<close> looks the lower-cased string up: \<open>markdown\<close> and \<open>md\<close> give
  Markdown, \<open>pdf\<close> gives PDF, \<open>html\<close> and \<open>htm\<close> give HTML, and every other string
  gives Markdown, with no error. On an ASCII string the lower-casing is the ASCII one, so
  the aliases are matched in any mix of cases. The function is idempotent through
  \<open>.value\<close>.
\<close>

theorem normalize_aliases_idempotent:
  "(py_lower ul x \<in> {str ''markdown'', str ''md''} \<longrightarrow> normalize ul x = MARKDOWN)
   \<and> (py_lower ul x = str ''pdf'' \<longrightarrow> normalize ul x = PDF)
   \<and> (py_lower ul x \<in> {str ''html'', str ''htm''} \<longrightarrow> normalize ul x = HTML)
   \<and> (py_lower ul x \<notin> {str ''markdown'', str ''md'', str ''pdf'', str ''html'', str ''htm''}
        \<longrightarrow> normalize ul x = MARKDOWN)
   \<and> (list_all (\<lambda>c. c < 128) x \<longrightarrow> py_lower ul x = map ascii_lower x)
   \<and> normalize ul (value_of (normalize ul x)) = normalize ul x"
proof (intro conjI)
  show "py_lower ul x \<in> {str ''markdown'', str ''md''} \<longrightarrow> normalize ul x = MARKDOWN"
    by (auto simp: normalize_cases) (simp_all add: str_def)
  show "py_lower ul x = str ''pdf'' \<longrightarrow> normalize ul x = PDF"
    by (simp add: normalize_cases)
  show "py_lower ul x \<in> {str ''html'', str ''htm''} \<longrightarrow> normalize ul x = HTML"
    by (auto simp: normalize_cases) (simp_all add: str_def)
  show "py_lower ul x \<notin> {str ''markdown'', str ''md'', str ''pdf'', str ''html'', str ''htm''}
        \<longrightarrow> normalize ul x = MARKDOWN"
    by (simp add: normalize_cases)
  show "list_all (\<lambda>c. c < 128) x \<longrightarrow> py_lower ul x = map ascii_lower x"
    by (simp add: py_lower_def lower_from_ascii)
  show "normalize ul (value_of (normalize ul x)) = normalize ul x"
    using normalize_range [of ul x] by (auto simp: normalize_literals)
qed

theorem normalize_aliases_idempotent_witness:
  "normalize ascii_only (str ''Md'') = MARKDOWN
   \<and> normalize ascii_only (str ''PdF'') = PDF
   \<and> normalize ascii_only (str ''HTM'') = HTML
   \<and> normalize ascii_only (str ''docx'') = MARKDOWN
   \<and> list_all (\<lambda>c. c < 128) (str ''PdF'')
   \<and> py_lower ascii_only (str ''PdF'') = map ascii_lower (str ''PdF'')
   \<and> normalize ascii_only (value_of (normalize ascii_only (str ''HTM'')))
       = normalize ascii_only (str ''HTM'')"
proof -
  have a: "list_all (\<lambda>c. c < 128) (str ''PdF'')"
    by (simp add: str_def)
  have m: "py_lower ascii_only (str ''Md'') \<in> {str ''markdown'', str ''md''}"
    by (simp add: lower_examples)
  have h: "py_lower ascii_only (str ''HTM'') \<in> {str ''html'', str ''htm''}"
    by (simp add: lower_examples)
  have d: "py_lower ascii_only (str ''docx'')
           \<notin> {str ''markdown'', str ''md'', str ''pdf'', str ''html'', str ''htm''}"
    by (simp add: lower_examples) (simp add: str_def)
  from normalize_aliases_idempotent [of ascii_only "str ''Md''"] m
  have 1: "normalize ascii_only (str ''Md'') = MARKDOWN" by blast
  from normalize_aliases_idempotent [of ascii_only "str ''PdF''"] lower_examples(1) a
  have 2: "normalize ascii_only (str ''PdF'') = PDF"
    and 3: "py_lower ascii_only (str ''PdF'') = map ascii_lower (str ''PdF'')" by blast+
  from normalize_aliases_idempotent [of ascii_only "str ''HTM''"] h
  have 4: "normalize ascii_only (str ''HTM'') = HTML"
    and 5: "normalize ascii_only (value_of (normalize ascii_only (str ''HTM'')))
            = normalize ascii_only (str ''HTM'')" by blast+
  from normalize_aliases_idempotent [of ascii_only "str ''docx''"] d
  have 6: "normalize ascii_only (str ''docx'') = MARKDOWN" by blast
  from 1 2 3 4 5 6 a show ?thesis by blast
qed

subsection \<open>Error codes\<close>

text \<open>
  Claim C6. Every error code has an entry of its own in the status table, so none is left
  to the default of the lookup: its status is the one of its entry, and it is one of the
  ten listed.
\<close>

theorem to_http_status_total:
  "map_of status_map c \<noteq> None
   \<and> map_of status_map c = Some (to_http_status c)
   \<and> to_http_status c \<in> {400, 404, 408, 410, 413, 422, 429, 500, 503, 507}"
  by (cases c) (simp_all add: to_http_status_def status_map_def)

subsection \<open>Task lifecycle\<close>

lemma status_set_processing: "status (set_processing now t) = PROCESSING"
  by (simp add: set_processing_def)

lemma status_set_completed: "status (set_completed now out_id t) = SUCCESS"
  by (simp add: set_completed_def Let_def split: option.splits)

lemma status_set_failed: "status (set_failed now code details t) = FAILED"
  by (simp add: set_failed_def)

lemma retry_count_set_processing: "retry_count (set_processing now t) = retry_count t"
  by (simp add: set_processing_def)

lemma retry_count_set_completed: "retry_count (set_completed now out_id t) = retry_count t"
  by (simp add: set_completed_def Let_def split: option.splits)

lemma retry_count_set_failed: "retry_count (set_failed now code details t) = retry_count t"
  by (simp add: set_failed_def)

lemma retry_count_Task_init:
  "Task_init ul d = Inr t \<Longrightarrow> 0 \<le> retry_count t \<and> retry_count t \<le> 3"
  by (auto simp: Task_init_def Let_def split: if_splits)

lemma Task_init_new_task:
  "Task_init ascii_only new_task = Inr (new_task\<lparr>source_format := MARKDOWN\<rparr>)"
  by (simp add: Task_init_def new_task_def normalize_formats_def validate_conversion_def
      can_convert_def normalize_literals CONVERSION_MATRIX_def)

lemma failed_task_fields: "status failed_task = FAILED" "retry_count failed_task = 0"
  by (simp_all add: failed_task_def set_failed_def set_processing_def new_task_def)

text \<open>
  Claim C1, as stated, fails: the mutators assign the status without looking at it. The
  task \<open>failed_task\<close> is in the final status Failed, and \<open>set_processing\<close> moves it to
  Processing.
\<close>

theorem final_status_overwritten_counterexample:
  "is_final (status failed_task)
   \<and> status (set_processing 12 failed_task) \<noteq> status failed_task"
  by (simp add: failed_task_fields status_set_processing is_final_def)

text \<open>
  Claim C1, amended. Each mutator overwrites the status whatever it was:
  \<open>set_processing\<close> leaves Processing, \<open>set_completed\<close> Success and \<open>set_failed\<close>
  Failed. So on a task in a final status \<open>set_processing\<close> always changes the status,
  \<open>set_completed\<close> leaves it unchanged exactly when it was Success, and \<open>set_failed\<close>
  exactly when it was Failed.
\<close>

theorem mutators_overwrite_status:
  "status (set_processing now t) = PROCESSING
   \<and> status (set_completed now out_id t) = SUCCESS
   \<and> status (set_failed now code details t) = FAILED
   \<and> (is_final (status t) \<longrightarrow>
        status (set_processing now t) \<noteq> status t
        \<and> (status (set_completed now out_id t) = status t \<longleftrightarrow> status t = SUCCESS)
        \<and> (status (set_failed now code details t) = status t \<longleftrightarrow> status t = FAILED))"
  by (auto simp: status_set_processing status_set_completed status_set_failed is_final_def)

theorem mutators_overwrite_status_witness:
  "is_final (status failed_task)
   \<and> status (set_processing 12 failed_task) = PROCESSING
   \<and> status (set_completed 12 7 failed_task) = SUCCESS
   \<and> status (set_failed 12 INTERNAL_ERROR (str ''again'') failed_task) = status failed_task"
proof -
  have f: "is_final (status failed_task)"
    by (simp add: failed_task_fields is_final_def)
  from mutators_overwrite_status [of 12 failed_task 7 INTERNAL_ERROR "str ''again''"] f
  show ?thesis by (simp add: failed_task_fields)
qed

text \<open>
  Claim C7, as stated, fails: a task can hold a \<open>retry_count\<close> above 3. The constructor
  returns the task \<open>new_task\<close> with its formats normalized, and the assignment
  \<open>task.retry_count = 7\<close> on it is stored as it is.
\<close>

theorem retry_count_unbounded_counterexample:
  "Task_init ascii_only new_task = Inr (new_task\<lparr>source_format := MARKDOWN\<rparr>)
   \<and> \<not> (0 \<le> retry_count (setattr_retry_count 7 (new_task\<lparr>source_format := MARKDOWN\<rparr>))
         \<and> retry_count (setattr_retry_count 7 (new_task\<lparr>source_format := MARKDOWN\<rparr>)) \<le> 3)"
  by (simp add: Task_init_new_task setattr_retry_count_def)

text \<open>
  Claim C7, amended. The constructor returns only tasks with a \<open>retry_count\<close> from 0 to
  3, and rejects every other value; \<open>set_processing\<close>, \<open>set_completed\<close> and
  \<open>set_failed\<close> leave \<open>retry_count\<close> as it is; an assignment to the field is not
  validated and stores any integer. For every task, whatever its \<open>retry_count\<close>,
  \<open>can_retry\<close> holds exactly when the status is Failed and \<open>retry_count\<close> is below 3.
\<close>

theorem retry_count_checked_at_construction:
  "(Task_init ul d = Inr t \<longrightarrow> 0 \<le> retry_count t \<and> retry_count t \<le> 3)
   \<and> (retry_count d < 0 \<or> 3 < retry_count d \<longrightarrow> isl (Task_init ul d))
   \<and> retry_count (set_processing now t) = retry_count t
   \<and> retry_count (set_completed now out_id t) = retry_count t
   \<and> retry_count (set_failed now code details t) = retry_count t
   \<and> retry_count (setattr_retry_count v t) = v
   \<and> (can_retry t \<longleftrightarrow> status t = FAILED \<and> retry_count t < 3)"
proof (intro conjI)
  show "Task_init ul d = Inr t \<longrightarrow> 0 \<le> retry_count t \<and> retry_count t \<le> 3"
    by (simp add: retry_count_Task_init)
  show "retry_count d < 0 \<or> 3 < retry_count d \<longrightarrow> isl (Task_init ul d)"
    by (auto simp: Task_init_def Let_def)
  show "retry_count (set_processing now t) = retry_count t"
    by (rule retry_count_set_processing)
  show "retry_count (set_completed now out_id t) = retry_count t"
    by (rule retry_count_set_completed)
  show "retry_count (set_failed now code details t) = retry_count t"
    by (rule retry_count_set_failed)
  show "retry_count (setattr_retry_count v t) = v"
    by (simp add: setattr_retry_count_def)
  show "can_retry t \<longleftrightarrow> status t = FAILED \<and> retry_count t < 3"
    by (auto simp: can_retry_def)
qed

theorem retry_count_checked_at_construction_witness:
  "Task_init ascii_only new_task = Inr (new_task\<lparr>source_format := MARKDOWN\<rparr>)
   \<and> 0 \<le> retry_count (new_task\<lparr>source_format := MARKDOWN\<rparr>)
   \<and> retry_count (new_task\<lparr>source_format := MARKDOWN\<rparr>) \<le> 3
   \<and> 3 < retry_count (new_task\<lparr>retry_count := 4\<rparr>)
   \<and> isl (Task_init ascii_only (new_task\<lparr>retry_count := 4\<rparr>))
   \<and> retry_count (setattr_retry_count 7 failed_task) = 7
   \<and> can_retry failed_task
   \<and> \<not> can_retry (setattr_retry_count 3 failed_task)"
proof -
  let ?t = "new_task\<lparr>source_format := MARKDOWN\<rparr>"
  have big: "3 < retry_count (new_task\<lparr>retry_count := 4\<rparr>)"
    by simp
  from retry_count_checked_at_construction [of ascii_only new_task ?t] Task_init_new_task
  have 1: "0 \<le> retry_count ?t \<and> retry_count ?t \<le> 3"
    by blast
  from retry_count_checked_at_construction [of ascii_only "new_task\<lparr>retry_count := 4\<rparr>"] big
  have 2: "isl (Task_init ascii_only (new_task\<lparr>retry_count := 4\<rparr>))"
    by blast
  from retry_count_checked_at_construction [of _ _ failed_task _ _ _ _ 7]
  have 3: "retry_count (setattr_retry_count 7 failed_task) = 7"
    by blast
  from retry_count_checked_at_construction [of _ _ failed_task]
  have 4: "can_retry failed_task"
    by (simp add: failed_task_fields)
  from retry_count_checked_at_construction [of _ _ "setattr_retry_count 3 failed_task"]
  have 5: "\<not> can_retry (setattr_retry_count 3 failed_task)"
    by (simp add: setattr_retry_count_def)
  from Task_init_new_task big 1 2 3 4 5 show ?thesis by blast
qed

subsection \<open>Text validation\<close>

text \<open>
  Claim C10. With \<open>max_size = 0\<close> the size check is skipped: a text that is not empty
  and holds no null character is accepted, whatever its length in bytes, as it is when
  \<open>max_size\<close> is left out.
\<close>

theorem validate_text_input_zero_limit:
  "text \<noteq> [] \<Longrightarrow> 0 \<notin> set text \<Longrightarrow>
   validate_text_input text (Some 0) = Inr (True, None)
   \<and> validate_text_input text (Some 0) = validate_text_input text None"
  by (simp add: validate_text_input_def truthy_def)

theorem validate_text_input_zero_limit_witness:
  "str ''Hello World'' \<noteq> [] \<and> 0 \<notin> set (str ''Hello World'')
   \<and> validate_text_input (str ''Hello World'') (Some 0) = Inr (True, None)
   \<and> validate_text_input (str ''Hello World'') (Some 0)
       = validate_text_input (str ''Hello World'') None"
proof -
  have a: "str ''Hello World'' \<noteq> []" and b: "0 \<notin> set (str ''Hello World'')"
    by (simp_all add: str_def)
  from validate_text_input_zero_limit [OF a b] a b show ?thesis by blast
qed

text \<open>With a limit of 5 bytes the same text is rejected.\<close>

lemma validate_text_input_small_limit:
  "fst (projr (validate_text_input (str ''Hello World'') (Some 5))) = False"
  by (simp add: validate_text_input_def truthy_def) (simp add: str_def encode_cp_def)

subsection \<open>File size\<close>

lemma max_size_lookup:
  "map_of max_sizes (str ''file'') = Some MAX_FILE_SIZE"
  "map_of max_sizes (str ''text'') = Some MAX_TEXT_SIZE"
  "map_of max_sizes (str ''url'') = Some MAX_URL_SIZE"
  by (simp_all add: max_sizes_def) (simp_all add: str_def)

lemma validate_file_size_accepts:
  "fst (validate_file_size sz src)
   \<longleftrightarrow> 0 < sz \<and> sz \<le> (case map_of max_sizes src of Some m \<Rightarrow> m | None \<Rightarrow> MAX_FILE_SIZE)"
  by (auto simp: validate_file_size_def Let_def)

lemma validate_file_size_text_limit:
  "validate_file_size 10485760 (str ''text'') = (True, None)"
  "fst (validate_file_size 10485761 (str ''text'')) = False"
  "validate_file_size 500000000 (str ''file'') = (True, None)"
  by (simp_all add: validate_file_size_def max_size_lookup MAX_TEXT_SIZE_def MAX_FILE_SIZE_def)

text \<open>
  Claim C4. The ceiling for the source \<open>file\<close> is 524288000 bytes, so the size
  500000001, one above the limit the claim names, is accepted. The other parts of the
  claim hold (\<open>validate_file_size_accepts\<close>, \<open>validate_file_size_text_limit\<close>).
\<close>

theorem validate_file_size_accepts_over_500_MB:
  "validate_file_size 500000001 (str ''file'') = (True, None)"
  by (simp add: validate_file_size_def max_size_lookup MAX_FILE_SIZE_def)

subsection \<open>Path sanitization\<close>

lemma sanitize_path_examples:
  "sanitize_path (str ''uploads/../file.txt'') = str ''file.txt''"
  "sanitize_path (str ''uploads/file.txt'') = str ''uploads/file.txt''"
  by code_simp+

text \<open>
  Claim C5. The two examples of the claim hold (\<open>sanitize_path_examples\<close>), but the
  function is not idempotent. The path made of \<open>a\<close>, a backslash, \<open>..\<close>, a
  backslash and \<open>b\<close> (the code points 97, 92, 46, 46, 92, 98) is one component for
  \<open>Path\<close>, so the test for parent segments does not see the
  \<open>..\<close>; the backslashes are replaced afterwards and the result is \<open>a/../b\<close>, which
  sanitizes to \<open>b\<close>.
\<close>

theorem sanitize_path_not_idempotent:
  "sanitize_path [97, 92, 46, 46, 92, 98] = str ''a/../b''
   \<and> sanitize_path (sanitize_path [97, 92, 46, 46, 92, 98]) = str ''b''"
  by code_simp

text \<open>The root alone: \<open>/\<close> gives the empty string, and the empty string gives \<open>.\<close>\<close>

lemma sanitize_path_root: "sanitize_path (str ''/'') = [] \<and> sanitize_path [] = str ''.''"
  by code_simp

subsection \<open>Quick format check\<close>

lemma decode_latin1_total: "\<not> isl (decode_latin1 bs)"
  by (simp add: decode_latin1_def)

lemma quick_format_check_pdf:
  assumes "f_exists file = Inr True" and "f_read file = Inr content"
  shows "quick_format_check file PDF =
           (if startswith (take 1024 content) pdf_signature then Inr (True, None)
            else Inr (False, Some (str ''File doesn't appear to be a PDF (missing %PDF header)'')))"
  using assms by (simp add: quick_format_check_def Let_def)

lemma quick_format_check_text:
  assumes "f_exists file = Inr True" and "f_read file = Inr content"
    and "fmt \<in> {MARKDOWN, MD, HTML, HTM}"
  shows "quick_format_check file fmt =
           (if 0 \<in> set (take 1024 content) then
              Inr (False, Some (str ''File appears to be binary, not text''))
            else Inr (True, None))"
  using assms by (auto simp: quick_format_check_def Let_def decode_latin1_def)

lemma quick_format_check_io_failure:
  assumes "f_exists file = Inr True" and "f_read file = Inl e"
  shows "quick_format_check file fmt = Inr (True, None)"
  using assms by (simp add: quick_format_check_def)

text \<open>
  Claim C8. For a file that exists: if it is read and claimed as PDF, it is rejected when
  its first 1024 bytes do not start with \<open>%PDF\<close>; if it is read and claimed as Markdown
  or HTML (under any of their names), it is rejected exactly when its first 1024 bytes
  hold a null byte or decode neither as UTF-8 nor as Latin-1; and if opening or reading it
  raises, the check returns valid. Latin-1 decodes every byte string
  (\<open>decode_latin1_total\<close>), so the null byte is the only way a text is rejected
  (\<open>quick_format_check_text\<close>).
\<close>

theorem quick_format_check_policy:
  "(f_exists file = Inr True \<and> f_read file = Inr content
      \<and> \<not> startswith (take 1024 content) pdf_signature
    \<longrightarrow> (\<exists>reason. quick_format_check file PDF = Inr (False, Some reason)))
   \<and> (f_exists file = Inr True \<and> f_read file = Inr content \<and> fmt \<in> {MARKDOWN, MD, HTML, HTM}
    \<longrightarrow> ((\<exists>reason. quick_format_check file fmt = Inr (False, Some reason))
         \<longleftrightarrow> 0 \<in> set (take 1024 content)
             \<or> (\<not> utf8_decodes (take 1024 content) \<and> isl (decode_latin1 (take 1024 content)))))
   \<and> (f_exists file = Inr True \<and> f_read file = Inl e
    \<longrightarrow> quick_format_check file fmt = Inr (True, None))"
proof (intro conjI impI)
  assume "f_exists file = Inr True \<and> f_read file = Inr content
      \<and> \<not> startswith (take 1024 content) pdf_signature"
  then show "\<exists>reason. quick_format_check file PDF = Inr (False, Some reason)"
    by (simp add: quick_format_check_pdf)
next
  assume "f_exists file = Inr True \<and> f_read file = Inr content \<and> fmt \<in> {MARKDOWN, MD, HTML, HTM}"
  then have "quick_format_check file fmt =
           (if 0 \<in> set (take 1024 content) then
              Inr (False, Some (str ''File appears to be binary, not text''))
            else Inr (True, None))"
    by (intro quick_format_check_text) simp_all
  then show "(\<exists>reason. quick_format_check file fmt = Inr (False, Some reason))
         \<longleftrightarrow> 0 \<in> set (take 1024 content)
             \<or> (\<not> utf8_decodes (take 1024 content) \<and> isl (decode_latin1 (take 1024 content)))"
    by (simp add: decode_latin1_total)
next
  assume "f_exists file = Inr True \<and> f_read file = Inl e"
  then show "quick_format_check file fmt = Inr (True, None)"
    by (simp add: quick_format_check_io_failure)
qed

theorem quick_format_check_policy_witness:
  "(\<exists>reason. quick_format_check \<lparr>f_exists = Inr True, f_read = Inr not_a_pdf\<rparr> PDF
      = Inr (False, Some reason))
   \<and> (\<exists>reason. quick_format_check \<lparr>f_exists = Inr True, f_read = Inr binary_file\<rparr> HTML
      = Inr (False, Some reason))
   \<and> quick_format_check
        \<lparr>f_exists = Inr True, f_read = Inl (OSError (str ''Permission denied''))\<rparr> MD
      = Inr (True, None)"
proof -
  have 1: "\<not> startswith (take 1024 not_a_pdf) pdf_signature"
    by (simp add: not_a_pdf_def startswith_def pdf_signature_def)
  have 2: "0 \<in> set (take 1024 binary_file)"
    by (simp add: binary_file_def)
  from quick_format_check_policy
         [of "\<lparr>f_exists = Inr True, f_read = Inr not_a_pdf\<rparr>" not_a_pdf PDF "OSError []"] 1
  have a: "\<exists>reason. quick_format_check \<lparr>f_exists = Inr True, f_read = Inr not_a_pdf\<rparr> PDF
      = Inr (False, Some reason)" by simp
  from quick_format_check_policy
         [of "\<lparr>f_exists = Inr True, f_read = Inr binary_file\<rparr>" binary_file HTML "OSError []"] 2
  have b: "\<exists>reason. quick_format_check \<lparr>f_exists = Inr True, f_read = Inr binary_file\<rparr> HTML
      = Inr (False, Some reason)" by simp
  from quick_format_check_policy
         [of "\<lparr>f_exists = Inr True, f_read = Inl (OSError (str ''Permission denied''))\<rparr>"
             "[]" MD "OSError (str ''Permission denied'')"]
  have c: "quick_format_check
        \<lparr>f_exists = Inr True, f_read = Inl (OSError (str ''Permission denied''))\<rparr> MD
      = Inr (True, None)" by simp
  from a b c show ?thesis by blast
qed

subsection \<open>URL validation\<close>

lemma validate_url_too_long:
  "length url > 2048 \<Longrightarrow>
   validate_url up ip url = (False, Some (str ''URL too long (max 2048 characters)''))"
  by (auto simp: validate_url_def)

lemma validate_url_scheme:
  assumes "up url = Inr p" and "scheme p \<notin> {str ''http'', str ''https''}"
  shows "\<exists>reason. validate_url up ip url = (False, Some reason)"
  using assms by (simp add: validate_url_def ALLOWED_SCHEMES_def)

lemma validate_url_blocked:
  assumes "up url = Inr p" and "hostname p = Some h"
    and "h \<in> {str ''localhost'', str ''127.0.0.1'', str ''0.0.0.0'', str ''::1''}"
  shows "\<exists>reason. validate_url up ip url = (False, Some reason)"
  using assms by (simp add: validate_url_def BLOCKED_DOMAINS_def)

lemma validate_url_private:
  assumes "up url = Inr p" and "hostname p = Some h" and "h \<noteq> []" and "ip h = Inr a"
    and "is_private a \<or> is_reserved a \<or> is_loopback a"
  shows "\<exists>reason. validate_url up ip url = (False, Some reason)"
  using assms by (simp add: validate_url_def is_private_ip_def)

lemma validate_url_domain:
  assumes "url \<noteq> []" and "length url \<le> 2048" and "up url = Inr p"
    and "scheme p \<in> {str ''http'', str ''https''}" and "hostname p = Some h"
    and "h \<notin> {str ''localhost'', str ''127.0.0.1'', str ''0.0.0.0'', str ''::1''}"
    and "ip h = Inl e" and "is_ValueError e"
  shows "validate_url up ip url = (True, None)"
  using assms by (simp add: validate_url_def is_private_ip_def ALLOWED_SCHEMES_def BLOCKED_DOMAINS_def)

text \<open>
  Claim C9. \<open>validate_url\<close> returns a pair in every case (the exceptions of the parser
  and of the address library are caught). It returns invalid, with a reason, for a URL of
  more than 2048 characters, for a URL whose scheme is neither \<open>http\<close> nor \<open>https\<close>,
  for a host name among \<open>localhost\<close>, \<open>127.0.0.1\<close>, \<open>0.0.0.0\<close>, \<open>::1\<close>, and for a
  host name that is an IP address flagged private, reserved or loopback (a host name that
  is an address is not empty). It accepts a URL within the length, with an allowed scheme
  and a host name that is not blocked and not an IP address, without resolving the name.
  This holds whatever \<open>urlparse\<close> and \<open>ip_address\<close> answer.
\<close>

theorem validate_url_policy:
  "(length url > 2048 \<longrightarrow> (\<exists>reason. validate_url up ip url = (False, Some reason)))
   \<and> (up url = Inr p \<and> scheme p \<notin> {str ''http'', str ''https''}
        \<longrightarrow> (\<exists>reason. validate_url up ip url = (False, Some reason)))
   \<and> (up url = Inr p \<and> hostname p = Some h
        \<and> h \<in> {str ''localhost'', str ''127.0.0.1'', str ''0.0.0.0'', str ''::1''}
        \<longrightarrow> (\<exists>reason. validate_url up ip url = (False, Some reason)))
   \<and> (up url = Inr p \<and> hostname p = Some h \<and> h \<noteq> [] \<and> ip h = Inr a
        \<and> (is_private a \<or> is_reserved a \<or> is_loopback a)
        \<longrightarrow> (\<exists>reason. validate_url up ip url = (False, Some reason)))
   \<and> (url \<noteq> [] \<and> length url \<le> 2048 \<and> up url = Inr p
        \<and> scheme p \<in> {str ''http'', str ''https''} \<and> hostname p = Some h
        \<and> h \<notin> {str ''localhost'', str ''127.0.0.1'', str ''0.0.0.0'', str ''::1''}
        \<and> ip h = Inl e \<and> is_ValueError e
        \<longrightarrow> validate_url up ip url = (True, None))"
proof (intro conjI impI)
  assume "length url > 2048"
  then show "\<exists>reason. validate_url up ip url = (False, Some reason)"
    by (simp add: validate_url_too_long)
next
  assume "up url = Inr p \<and> scheme p \<notin> {str ''http'', str ''https''}"
  then show "\<exists>reason. validate_url up ip url = (False, Some reason)"
    by (intro validate_url_scheme [of up url p]) simp_all
next
  assume "up url = Inr p \<and> hostname p = Some h
        \<and> h \<in> {str ''localhost'', str ''127.0.0.1'', str ''0.0.0.0'', str ''::1''}"
  then show "\<exists>reason. validate_url up ip url = (False, Some reason)"
    by (intro validate_url_blocked [of up url p h]) simp_all
next
  assume "up url = Inr p \<and> hostname p = Some h \<and> h \<noteq> [] \<and> ip h = Inr a
        \<and> (is_private a \<or> is_reserved a \<or> is_loopback a)"
  then show "\<exists>reason. validate_url up ip url = (False, Some reason)"
    by (intro validate_url_private [of up url p h ip a]) simp_all
next
  assume "url \<noteq> [] \<and> length url \<le> 2048 \<and> up url = Inr p
        \<and> scheme p \<in> {str ''http'', str ''https''} \<and> hostname p = Some h
        \<and> h \<notin> {str ''localhost'', str ''127.0.0.1'', str ''0.0.0.0'', str ''::1''}
        \<and> ip h = Inl e \<and> is_ValueError e"
  then show "validate_url up ip url = (True, None)"
    by (intro validate_url_domain [of url up p h ip e]) simp_all
qed

lemma example_urlparse_values:
  "example_urlparse (str ''https://example.com/path?q=1'')
     = Inr \<lparr>scheme = str ''https'', hostname = Some (str ''example.com'')\<rparr>"
  "example_urlparse (str ''ftp://example.com'')
     = Inr \<lparr>scheme = str ''ftp'', hostname = Some (str ''example.com'')\<rparr>"
  "example_urlparse (str ''http://127.0.0.1:8080'')
     = Inr \<lparr>scheme = str ''http'', hostname = Some (str ''127.0.0.1'')\<rparr>"
  "example_urlparse (str ''http://192.168.1.1'')
     = Inr \<lparr>scheme = str ''http'', hostname = Some (str ''192.168.1.1'')\<rparr>"
  by (simp_all add: example_urlparse_def) (simp_all add: str_def)

lemma example_ip_address_values:
  "example_ip_address (str ''192.168.1.1'')
     = Inr \<lparr>is_private = True, is_reserved = False, is_loopback = False\<rparr>"
  "example_ip_address (str ''example.com'')
     = Inl (ValueError (str ''does not appear to be an IPv4 or IPv6 address''))"
  by (simp_all add: example_ip_address_def) (simp_all add: str_def)

theorem validate_url_policy_witness:
  "(\<exists>reason. validate_url example_urlparse example_ip_address (replicate 2049 120)
       = (False, Some reason))
   \<and> (\<exists>reason. validate_url example_urlparse example_ip_address (str ''ftp://example.com'')
       = (False, Some reason))
   \<and> (\<exists>reason. validate_url example_urlparse example_ip_address (str ''http://127.0.0.1:8080'')
       = (False, Some reason))
   \<and> (\<exists>reason. validate_url example_urlparse example_ip_address (str ''http://192.168.1.1'')
       = (False, Some reason))
   \<and> validate_url example_urlparse example_ip_address (str ''https://example.com/path?q=1'')
       = (True, None)"
proof -
  let ?p0 = "\<lparr>scheme = [], hostname = None\<rparr>"
  let ?a0 = "\<lparr>is_private = True, is_reserved = False, is_loopback = False\<rparr>"
  let ?e0 = "ValueError (str ''does not appear to be an IPv4 or IPv6 address'')"
  have 1: "\<exists>reason. validate_url example_urlparse example_ip_address (replicate 2049 120)
       = (False, Some reason)"
    using validate_url_policy
      [of "replicate 2049 120" example_urlparse example_ip_address ?p0 "[]" ?a0 ?e0]
    by simp
  have 2: "\<exists>reason. validate_url example_urlparse example_ip_address (str ''ftp://example.com'')
       = (False, Some reason)"
    using validate_url_policy
      [of "str ''ftp://example.com''" example_urlparse example_ip_address
          "\<lparr>scheme = str ''ftp'', hostname = Some (str ''example.com'')\<rparr>"
          "str ''example.com''" ?a0 ?e0]
    by (simp add: example_urlparse_values) (simp add: str_def)
  have 3: "\<exists>reason. validate_url example_urlparse example_ip_address (str ''http://127.0.0.1:8080'')
       = (False, Some reason)"
    using validate_url_policy
      [of "str ''http://127.0.0.1:8080''" example_urlparse example_ip_address
          "\<lparr>scheme = str ''http'', hostname = Some (str ''127.0.0.1'')\<rparr>"
          "str ''127.0.0.1''" ?a0 ?e0]
    by (simp add: example_urlparse_values)
  have 4: "\<exists>reason. validate_url example_urlparse example_ip_address (str ''http://192.168.1.1'')
       = (False, Some reason)"
    using validate_url_policy
      [of "str ''http://192.168.1.1''" example_urlparse example_ip_address
          "\<lparr>scheme = str ''http'', hostname = Some (str ''192.168.1.1'')\<rparr>"
          "str ''192.168.1.1''" ?a0 ?e0]
    by (simp add: example_urlparse_values example_ip_address_values) (simp add: str_def)
  have 5: "validate_url example_urlparse example_ip_address (str ''https://example.com/path?q=1'')
       = (True, None)"
    using validate_url_policy
      [of "str ''https://example.com/path?q=1''" example_urlparse example_ip_address
          "\<lparr>scheme = str ''https'', hostname = Some (str ''example.com'')\<rparr>"
          "str ''example.com''" ?a0 ?e0]
    by (simp add: example_urlparse_values example_ip_address_values) (simp add: str_def)
  from 1 2 3 4 5 show ?thesis by blast
qed

end
